theory Spec2Isabelle
  imports Main "HOL-Library.Sublist"
begin

section \<open>The Variable layer of the autograd runtime (VariableTypeManual.cpp)\<close>

text \<open>
  A shallow embedding of the hand-written Variable operations of
  \<^verbatim>\<open>torch/csrc/autograd/VariableTypeManual.cpp\<close>: \<^verbatim>\<open>unpack\<close>, \<^verbatim>\<open>set_data\<close>,
  \<^verbatim>\<open>is_leaf\<close>, \<^verbatim>\<open>output_nr\<close>, \<^verbatim>\<open>_version\<close>, \<^verbatim>\<open>copy_\<close>, \<^verbatim>\<open>resize_\<close>, \<^verbatim>\<open>resize_as_\<close>,
  \<^verbatim>\<open>detach\<close> and \<^verbatim>\<open>detach_\<close>.

  A \<^verbatim>\<open>Tensor\<close> is a reference-counted pointer to a \<^verbatim>\<open>TensorImpl\<close>; several tensors may
  share one storage and one version counter. The model therefore keeps an explicit store:
  tensor objects, version counters and storage buffers live at addresses, a tensor handle
  is either undefined or an address, and every operation takes the store and returns the
  store it leaves behind, also when it throws.

  Left out: the enumeration of backend types (\<^verbatim>\<open>allCPUTypes\<close>, \<^verbatim>\<open>allCUDATypes\<close>),
  \<^verbatim>\<open>backward\<close> and \<^verbatim>\<open>data\<close>, which only forward to code outside this file, the profiler
  hook \<^verbatim>\<open>RECORD_FUNCTION\<close>, and the propagation of tensor names, which is compiled only
  under \<^verbatim>\<open>BUILD_NAMEDTENSOR\<close>.
\<close>

subsection \<open>Data model\<close>

text \<open>
  Modelled from the spec: the types of the tensor library and of the Variable
  (\<^verbatim>\<open>Tensor\<close>, \<^verbatim>\<open>TensorImpl\<close>, \<^verbatim>\<open>AutogradMeta\<close>, \<^verbatim>\<open>Edge\<close>, \<^verbatim>\<open>Node\<close>, \<^verbatim>\<open>Device\<close>,
  \<^verbatim>\<open>ScalarType\<close>) are declared outside this file. The records below hold the fields
  the spec's data model lists and this file reads or writes; the members
  \<^verbatim>\<open>grad_fn_\<close>, \<^verbatim>\<open>output_nr_\<close>, \<^verbatim>\<open>requires_grad_\<close>, \<^verbatim>\<open>grad_accumulator_\<close> and \<^verbatim>\<open>is_view_\<close>
  keep their names, with a prime where the source has a trailing underscore, as do the
  in-place operations.
\<close>

type_synonym addr = nat

datatype backend = CPU | CUDA | SparseCPU | SparseCUDA

datatype scalar_type =
  kByte | kChar | kShort | kInt | kLong | kHalf | kFloat | kDouble | kBool

datatype device = DeviceCPU | DeviceCUDA nat

text \<open>
  Modelled from the spec: \<^verbatim>\<open>isFloatingPoint\<close> (declared outside this file) tells the
  floating element types from the integer ones.
\<close>

fun isFloatingPoint :: "scalar_type \<Rightarrow> bool" where
  "isFloatingPoint kHalf = True"
| "isFloatingPoint kFloat = True"
| "isFloatingPoint kDouble = True"
| "isFloatingPoint _ = False"

text \<open>
  \<^verbatim>\<open>std::weak_ptr\<close>: empty, pointing at an object that is already destroyed, or pointing at
  a live object. \<^verbatim>\<open>lock()\<close> yields the object only in the last case, \<^verbatim>\<open>reset()\<close> empties
  the pointer.
\<close>

datatype 'a weak_ptr = WeakEmpty | WeakExpired | WeakLive 'a

fun lock :: "'a weak_ptr \<Rightarrow> 'a option" where
  "lock (WeakLive x) = Some x"
| "lock _ = None"

text \<open>
  The gradient accumulator of a leaf. The only thing this file reads of it is the device
  of its input metadata, \<^verbatim>\<open>input_metadata(0).device()\<close>, recorded when the accumulator
  was created.
\<close>

record accumulate_grad =
  input_device :: device

text \<open>
  An edge of the graph: no gradient, output slot \<open>n\<close> of the gradient function at
  address \<open>f\<close>, or the implicit accumulator of the leaf at address \<open>a\<close>.
\<close>

datatype edge = NoEdge | FnEdge addr nat | AccumulatorEdge addr nat

text \<open>
  Gradient-function nodes. \<^verbatim>\<open>CopyBackwards\<close> is the node \<^verbatim>\<open>copy_\<close> builds, with its
  \<^verbatim>\<open>next_edges\<close>, \<^verbatim>\<open>src_options\<close> and \<^verbatim>\<open>src_device\<close>; \<open>OtherBackwards\<close> stands for the
  nodes of the generated operations.
\<close>

type_synonym tensor_options = "scalar_type \<times> device \<times> backend"

datatype grad_node =
  CopyBackwards "edge list" tensor_options device
| OtherBackwards "edge list"

text \<open>
  The autograd metadata of a Variable. \<open>grad_fn_'\<close> is the address of the gradient
  function in the node store, or null for a leaf; \<open>is_differentiable\<close> is the mark a
  view is created with.
\<close>

record autograd_meta =
  grad_fn_' :: "addr option"
  output_nr_' :: nat
  requires_grad_' :: bool
  grad_accumulator_' :: "accumulate_grad weak_ptr"
  is_view_' :: bool
  is_differentiable :: bool

text \<open>
  A tensor object: its non-autograd fields (shape, storage pointer, device, type), the
  address of its version counter, the metadata-change lock, and its autograd metadata,
  present exactly when the tensor is a Variable.
\<close>

record tensor_impl =
  sizes :: "int list"
  storage :: addr
  tdevice :: device
  tbackend :: backend
  tscalar_type :: scalar_type
  version_counter :: addr
  allow_tensor_metadata_change :: bool
  autograd_meta :: "autograd_meta option"

datatype tensor = Undefined | TensorRef addr

text \<open>
  The optional trace recorder: when \<open>tracing\<close> is set, the operations append what they
  report to \<open>graph\<close>. Nothing below reads \<open>graph\<close>.
\<close>

datatype trace_event =
  TraceNode string "tensor list"
| TraceInsert string "tensor list"
| TraceEnsureUnique string tensor
| TraceSetOutput tensor
| TraceAddOutput tensor
| TracePopIntArrayRef string
| TraceWarn string
| TraceDelValue tensor

type_synonym buffer = "nat list"

record state =
  impls :: "addr \<Rightarrow> tensor_impl"
  next_impl :: addr
  versions :: "addr \<Rightarrow> nat"
  storages :: "addr \<Rightarrow> buffer"
  nodes :: "grad_node list"
  tracing :: bool
  force_outplace :: bool
  graph :: "trace_event list"

subsection \<open>Errors\<close>

text \<open>
  Every failure of the file is a \<^verbatim>\<open>c10::Error\<close> thrown by \<^verbatim>\<open>AT_ERROR\<close> or
  \<^verbatim>\<open>TORCH_CHECK\<close> with a message. The kinds are the spec's taxonomy; \<open>StorageError\<close> is a
  failure of the underlying tensor library, and \<open>NullDereference\<close> stands for the
  undefined behaviour of reading the autograd metadata of a tensor that has none.
\<close>

datatype error_kind =
  UndefinedTensorError
| NotAVariableError
| IncompatibleTypeError
| InvalidOperation
| ViewSafetyError
| StorageError
| NullDereference

type_synonym error = "error_kind \<times> string"

text \<open>
  The collaborators this file calls and does not define. Each is a parameter:
  \<^item> \<open>toString\<close>: the printed name of a tensor type;
  \<^item> \<open>has_compatible_shallow_copy_type\<close>: the test \<^verbatim>\<open>set_data\<close> starts with;
  \<^item> \<open>check_inplace\<close>: the in-place safety check, \<open>Some msg\<close> when it rejects;
  \<^item> \<open>raw_copy\<close>: the underlying \<^verbatim>\<open>copy_\<close>, from the destination's tensor and buffer, the
    source's tensor and buffer and \<^verbatim>\<open>non_blocking\<close> to the destination's new buffer;
  \<^item> \<open>raw_resize\<close>: the underlying \<^verbatim>\<open>resize_\<close>, from the tensor, its buffer and the
    requested sizes to the new sizes and buffer.
  The two raw operations run with autograd bookkeeping suspended: they see and change
  sizes and buffers only.
\<close>

record externals =
  toString :: "backend \<times> scalar_type \<Rightarrow> string"
  has_compatible_shallow_copy_type :: "tensor_impl \<Rightarrow> tensor_impl \<Rightarrow> bool"
  check_inplace :: "state \<Rightarrow> tensor \<Rightarrow> string option"
  raw_copy :: "tensor_impl \<Rightarrow> buffer \<Rightarrow> tensor_impl \<Rightarrow> buffer \<Rightarrow> bool \<Rightarrow> string + buffer"
  raw_resize :: "tensor_impl \<Rightarrow> buffer \<Rightarrow> int list \<Rightarrow> string + int list \<times> buffer"

subsection \<open>Reading a tensor\<close>

text \<open>
  Modelled from the spec: \<^verbatim>\<open>defined()\<close>, \<^verbatim>\<open>get_autograd_meta()\<close>, \<^verbatim>\<open>is_variable()\<close>,
  \<^verbatim>\<open>type()\<close> and \<^verbatim>\<open>options()\<close> of a tensor (declared outside this file). A handle is defined
  when it has a payload; a Variable is a tensor that carries autograd metadata; the type is
  the backend with the element type; the options add the device.
\<close>

fun defined :: "tensor \<Rightarrow> bool" where
  "defined Undefined = False"
| "defined (TensorRef a) = True"

fun get_autograd_meta :: "state \<Rightarrow> tensor \<Rightarrow> autograd_meta option" where
  "get_autograd_meta st Undefined = None"
| "get_autograd_meta st (TensorRef a) = autograd_meta (impls st a)"

definition is_variable :: "state \<Rightarrow> tensor \<Rightarrow> bool" where
  "is_variable st t = (get_autograd_meta st t \<noteq> None)"

definition type_of :: "tensor_impl \<Rightarrow> backend \<times> scalar_type" where
  "type_of i = (tbackend i, tscalar_type i)"

definition options :: "tensor_impl \<Rightarrow> tensor_options" where
  "options i = (tscalar_type i, tdevice i, tbackend i)"

subsection \<open>Printing numbers in messages\<close>

text \<open>
  The messages print the argument position, a C++ \<^verbatim>\<open>int\<close>, and the list index, a
  \<^verbatim>\<open>size_t\<close>, in decimal. Neither is computed with, so they are an \<open>int\<close> and a \<open>nat\<close>
  here. \<open>digit_char\<close> is applied to numbers below ten only.
\<close>

definition digit_char :: "nat \<Rightarrow> char" where
  "digit_char d = ''0123456789'' ! d"

function show_nat :: "nat \<Rightarrow> string" where
  "show_nat n =
     (if n < 10 then [digit_char n] else show_nat (n div 10) @ [digit_char (n mod 10)])"
  by pat_completeness auto
termination
  by (relation "measure (\<lambda>n. n)") auto

declare show_nat.simps [simp del]

definition show_int :: "int \<Rightarrow> string" where
  "show_int i = (if i < 0 then CHR ''-'' # show_nat (nat (- i)) else show_nat (nat i))"

definition quote :: string where
  "quote = [CHR 0x27]"

subsection \<open>Unwrap and validate\<close>

text \<open>
  \<^verbatim>\<open>checked_cast_variable\<close> (both overloads have the same body) and \<^verbatim>\<open>unpack\<close>. The result
  is the argument itself, as a reference to a Variable.
\<close>

definition checked_cast_variable ::
  "externals \<Rightarrow> state \<Rightarrow> tensor \<Rightarrow> string \<Rightarrow> int \<Rightarrow> error + tensor" where
  "checked_cast_variable ext st t name pos =
     (case t of
        Undefined \<Rightarrow>
          Inl (UndefinedTensorError,
            ''Expected a Tensor of type Variable but found an undefined Tensor for argument #''
              @ show_int pos @ '' '' @ quote @ name @ quote)
      | TensorRef a \<Rightarrow>
          if \<not> is_variable st t then
            Inl (NotAVariableError,
              ''Expected object of type Variable but found type ''
                @ toString ext (type_of (impls st a)) @ '' for argument #''
                @ show_int pos @ '' '' @ quote @ name @ quote)
          else Inr t)"

definition unpack :: "externals \<Rightarrow> state \<Rightarrow> tensor \<Rightarrow> string \<Rightarrow> int \<Rightarrow> error + tensor" where
  "unpack ext st t name pos = checked_cast_variable ext st t name pos"

definition unpack_opt :: "externals \<Rightarrow> state \<Rightarrow> tensor \<Rightarrow> string \<Rightarrow> int \<Rightarrow> error + tensor" where
  "unpack_opt ext st t name pos =
     (if \<not> defined t then Inr Undefined else unpack ext st t name pos)"

text \<open>
  The list form. \<open>ret\<close> starts as \<open>tl.size()\<close> undefined tensors; the loop visits the
  elements in order, \<open>i\<close> being the index of the head of the remaining list.
\<close>

fun unpack_loop ::
  "externals \<Rightarrow> state \<Rightarrow> tensor list \<Rightarrow> string \<Rightarrow> int \<Rightarrow> nat \<Rightarrow> tensor list \<Rightarrow> error + tensor list"
where
  "unpack_loop ext st [] name pos i ret = Inr ret"
| "unpack_loop ext st (t # ts) name pos i ret =
     (case t of
        Undefined \<Rightarrow> unpack_loop ext st ts name pos (Suc i) ret
      | TensorRef a \<Rightarrow>
          if \<not> is_variable st t then
            Inl (NotAVariableError,
              ''Expected object of type Variable but found type ''
                @ toString ext (type_of (impls st a)) @ '' at position #'' @ show_nat i
                @ '' for iterable argument #'' @ show_int pos @ '' '' @ quote @ name @ quote)
          else unpack_loop ext st ts name pos (Suc i) (ret[i := t]))"

definition unpack_list ::
  "externals \<Rightarrow> state \<Rightarrow> tensor list \<Rightarrow> string \<Rightarrow> int \<Rightarrow> error + tensor list" where
  "unpack_list ext st tlist name pos =
     unpack_loop ext st tlist name pos 0 (replicate (length tlist) Undefined)"

subsection \<open>Version counter and metadata access\<close>

text \<open>
  Modelled from the spec: \<^verbatim>\<open>current_version\<close> (declared outside this file) is the current
  mutation epoch of the tensor's version counter; the epoch is an integer, taken unbounded
  here.
\<close>

fun current_version :: "state \<Rightarrow> tensor \<Rightarrow> nat" where
  "current_version st Undefined = 0"
| "current_version st (TensorRef a) = versions st (version_counter (impls st a))"

text \<open>
  Modelled from the spec: \<^verbatim>\<open>increment_version\<close> (declared outside this file) bumps the
  epoch of the tensor's version counter.
\<close>

fun increment_version :: "tensor \<Rightarrow> state \<Rightarrow> state" where
  "increment_version Undefined st = st"
| "increment_version (TensorRef a) st =
     st\<lparr>versions := (versions st)
       (version_counter (impls st a) := Suc (versions st (version_counter (impls st a))))\<rparr>"

text \<open>
  Modelled from the spec: \<^verbatim>\<open>requires_grad()\<close> of a Variable (declared outside this file)
  is the stored flag on a leaf and is implied by the presence of \<open>grad_fn\<close> otherwise.
\<close>

definition requires_grad :: "state \<Rightarrow> tensor \<Rightarrow> bool" where
  "requires_grad st t =
     (case get_autograd_meta st t of
        None \<Rightarrow> False
      | Some m \<Rightarrow> requires_grad_' m \<or> grad_fn_' m \<noteq> None)"

text \<open>
  Modelled from the spec: \<^verbatim>\<open>is_view()\<close> (declared outside this file) tells whether the
  Variable is a view.
\<close>

definition is_view :: "state \<Rightarrow> tensor \<Rightarrow> bool" where
  "is_view st t = (case get_autograd_meta st t of None \<Rightarrow> False | Some m \<Rightarrow> is_view_' m)"

text \<open>
  \<^verbatim>\<open>is_leaf\<close>, \<^verbatim>\<open>output_nr\<close> and \<^verbatim>\<open>_version\<close>. The first two dereference
  \<^verbatim>\<open>get_autograd_meta()\<close> unchecked. \<^verbatim>\<open>output_nr\<close> is written as
  \<^verbatim>\<open>return self.get_autograd_meta()->output_nr_ == nullptr;\<close>: it returns the truth value
  of comparing the stored slot index with the null constant, converted to \<^verbatim>\<open>int64_t\<close>.
\<close>

definition is_leaf :: "state \<Rightarrow> tensor \<Rightarrow> error + bool" where
  "is_leaf st self =
     (case get_autograd_meta st self of
        None \<Rightarrow> Inl (NullDereference, [])
      | Some m \<Rightarrow> Inr (grad_fn_' m = None))"

definition output_nr :: "state \<Rightarrow> tensor \<Rightarrow> error + int" where
  "output_nr st self =
     (case get_autograd_meta st self of
        None \<Rightarrow> Inl (NullDereference, [])
      | Some m \<Rightarrow> Inr (if output_nr_' m = 0 then 1 else 0))"

definition version :: "state \<Rightarrow> tensor \<Rightarrow> int" where
  "version st self = int (current_version st self)"

subsection \<open>Graph edge builder\<close>

text \<open>
  Modelled from the spec: \<^verbatim>\<open>compute_requires_grad\<close> (declared outside this file) is true
  iff some input requires gradients; a pure function of the inputs' metadata.
\<close>

definition compute_requires_grad :: "state \<Rightarrow> tensor list \<Rightarrow> bool" where
  "compute_requires_grad st ts = list_ex (requires_grad st) ts"

text \<open>
  Modelled from the spec: \<^verbatim>\<open>collect_next_edges\<close> (declared outside this file) gives, for
  each input that requires gradient tracking, an edge to its \<open>grad_fn\<close> or to its implicit
  accumulator, with its \<open>output_nr\<close>, and the no-gradient edge otherwise; a pure function
  of the inputs' metadata. \<open>gradient_edge\<close> is the edge of one input.
\<close>

fun gradient_edge :: "state \<Rightarrow> tensor \<Rightarrow> edge" where
  "gradient_edge st Undefined = NoEdge"
| "gradient_edge st (TensorRef a) =
     (case autograd_meta (impls st a) of
        None \<Rightarrow> NoEdge
      | Some m \<Rightarrow>
          if requires_grad st (TensorRef a) then
            (case grad_fn_' m of
               Some f \<Rightarrow> FnEdge f (output_nr_' m)
             | None \<Rightarrow> AccumulatorEdge a (output_nr_' m))
          else NoEdge)"

definition collect_next_edges :: "state \<Rightarrow> tensor list \<Rightarrow> edge list" where
  "collect_next_edges st ts = map (gradient_edge st) ts"

text \<open>
  Modelled from the spec: \<^verbatim>\<open>rebase_history\<close> (declared outside this file) replaces
  \<open>(grad_fn, output_nr)\<close> of the variable by \<open>(new_grad_fn, 0)\<close> when \<open>new_grad_fn\<close> is
  not null and does nothing when it is. \<open>map_autograd_meta\<close> writes the autograd metadata
  of a Variable in place.
\<close>

fun map_autograd_meta :: "(autograd_meta \<Rightarrow> autograd_meta) \<Rightarrow> tensor \<Rightarrow> state \<Rightarrow> state" where
  "map_autograd_meta f Undefined st = st"
| "map_autograd_meta f (TensorRef a) st =
     st\<lparr>impls := (impls st)
       (a := (impls st a)\<lparr>autograd_meta := map_option f (autograd_meta (impls st a))\<rparr>)\<rparr>"

definition rebase_history :: "tensor \<Rightarrow> addr option \<Rightarrow> state \<Rightarrow> state" where
  "rebase_history var grad_fn st =
     (case grad_fn of
        None \<Rightarrow> st
      | Some f \<Rightarrow> map_autograd_meta (\<lambda>m. m\<lparr>grad_fn_' := Some f, output_nr_' := 0\<rparr>) var st)"

text \<open>
  \<^verbatim>\<open>std::make_shared\<close>: the new node is appended to the node store, and its address is its
  index there.
\<close>

definition make_shared :: "grad_node \<Rightarrow> state \<Rightarrow> addr \<times> state" where
  "make_shared n st = (length (nodes st), st\<lparr>nodes := nodes st @ [n]\<rparr>)"

definition record_trace :: "trace_event list \<Rightarrow> state \<Rightarrow> state" where
  "record_trace evs st = (if tracing st then st\<lparr>graph := graph st @ evs\<rparr> else st)"

subsection \<open>The manual operations\<close>

text \<open>
  Modelled from the spec: \<^verbatim>\<open>shallow_copy_from\<close> (declared outside this file) replaces all
  non-autograd fields of the tensor at \<open>a\<close> (shape, storage pointer, device, type) by
  those of the tensor at \<open>n\<close>, and keeps the version counter, the metadata-change lock
  and the autograd metadata of \<open>a\<close>.
\<close>

definition shallow_copy_from :: "addr \<Rightarrow> addr \<Rightarrow> state \<Rightarrow> state" where
  "shallow_copy_from a n st =
     st\<lparr>impls := (impls st)
       (a := (impls st n)
          \<lparr>version_counter := version_counter (impls st a),
           allow_tensor_metadata_change := allow_tensor_metadata_change (impls st a),
           autograd_meta := autograd_meta (impls st a)\<rparr>)\<rparr>"

text \<open>
  \<^verbatim>\<open>set_data\<close>. The unqualified \<^verbatim>\<open>type()\<close> of the source is the type of \<^verbatim>\<open>self\<close>;
  \<open>prior_device\<close> is read from the accumulator's input metadata, not from \<^verbatim>\<open>self\<close>.
  The mutex guards only the interleaving with other threads and has no sequential effect.
\<close>

definition set_data :: "externals \<Rightarrow> tensor \<Rightarrow> tensor \<Rightarrow> state \<Rightarrow> (error + unit) \<times> state" where
  "set_data ext self new_data st =
     (case (self, new_data) of
        (TensorRef a, TensorRef n) \<Rightarrow>
          if \<not> has_compatible_shallow_copy_type ext (impls st a) (impls st n) then
            (Inl (IncompatibleTypeError,
               ''Attempted to call `variable.set_data(tensor)`, but `variable` and `tensor` have incompatible tensor type.''),
             st)
          else
            (case autograd_meta (impls st a) of
               None \<Rightarrow> (Inl (NullDereference, []), st)
             | Some autograd_meta0 \<Rightarrow>
                 let st1 =
                   (case lock (grad_accumulator_' autograd_meta0) of
                      None \<Rightarrow> st
                    | Some prior_accumulator \<Rightarrow>
                        let prior_device = input_device prior_accumulator;
                            new_device = tdevice (impls st n)
                        in if type_of (impls st n) \<noteq> type_of (impls st a)
                              \<or> prior_device \<noteq> new_device
                           then map_autograd_meta
                                  (\<lambda>m. m\<lparr>grad_accumulator_' := WeakEmpty\<rparr>) self st
                           else st)
                 in (Inr (), shallow_copy_from a n st1))
      | _ \<Rightarrow> (Inl (NullDereference, []), st))"

text \<open>
  The underlying storage operations, run in \<^verbatim>\<open>AutoNonVariableTypeMode\<close>: the raw copy
  writes the destination's storage buffer, the raw resize writes the tensor's sizes and
  its storage buffer. A failure of the tensor library leaves the store as it is.
\<close>

definition underlying_copy :: "externals \<Rightarrow> addr \<Rightarrow> addr \<Rightarrow> bool \<Rightarrow> state \<Rightarrow> error + state" where
  "underlying_copy ext d s non_blocking st =
     (case raw_copy ext (impls st d) (storages st (storage (impls st d)))
             (impls st s) (storages st (storage (impls st s))) non_blocking of
        Inl msg \<Rightarrow> Inl (StorageError, msg)
      | Inr buf \<Rightarrow> Inr (st\<lparr>storages := (storages st)(storage (impls st d) := buf)\<rparr>))"

definition underlying_resize :: "externals \<Rightarrow> addr \<Rightarrow> int list \<Rightarrow> state \<Rightarrow> error + state" where
  "underlying_resize ext d new_size st =
     (case raw_resize ext (impls st d) (storages st (storage (impls st d))) new_size of
        Inl msg \<Rightarrow> Inl (StorageError, msg)
      | Inr (sz, buf) \<Rightarrow>
          Inr (st\<lparr>impls := (impls st)(d := (impls st d)\<lparr>sizes := sz\<rparr>),
                  storages := (storages st)(storage (impls st d) := buf)\<rparr>))"

text \<open>
  \<^verbatim>\<open>copy_\<close>. \<open>trace_copy_entry\<close> is the block run first when the tracer is recording;
  \<open>grad_fn\<close> is the local \<^verbatim>\<open>std::shared_ptr<CopyBackwards>\<close>, null unless the node is
  built.
\<close>

definition trace_copy_entry :: "tensor \<Rightarrow> tensor \<Rightarrow> state \<Rightarrow> state" where
  "trace_copy_entry self src st =
     (if force_outplace st then
        record_trace [TraceNode ''expand_as'' [src, self],
                      TraceEnsureUnique ''copy_ (possibly due to an assignment)'' self] st
      else record_trace [TraceInsert ''copy_'' [self, src]] st)"

definition copy_' ::
  "externals \<Rightarrow> tensor \<Rightarrow> tensor \<Rightarrow> bool \<Rightarrow> state \<Rightarrow> (error + tensor) \<times> state" where
  "copy_' ext self src non_blocking st =
     (let st1 = trace_copy_entry self src st
      in
      case unpack ext st1 self ''self'' 0 of
        Inl e \<Rightarrow> (Inl e, st1)
      | Inr Undefined \<Rightarrow> (Inl (NullDereference, []), st1)
      | Inr (TensorRef d) \<Rightarrow>
      (case unpack ext st1 src ''src'' 1 of
        Inl e \<Rightarrow> (Inl e, st1)
      | Inr Undefined \<Rightarrow> (Inl (NullDereference, []), st1)
      | Inr (TensorRef s) \<Rightarrow>
      (case check_inplace ext st1 self of
        Some msg \<Rightarrow> (Inl (ViewSafetyError, msg), st1)
      | None \<Rightarrow>
          let requires_grad0 = compute_requires_grad st1 [self, src];
              requires_grad1 = (requires_grad0 \<and> isFloatingPoint (tscalar_type (impls st1 d)));
              (grad_fn, st2) =
                (if requires_grad1 then
                   let (f, st') =
                     make_shared
                       (CopyBackwards (collect_next_edges st1 [self, src])
                          (options (impls st1 s)) (tdevice (impls st1 s))) st1
                   in (Some f, st')
                 else (None, st1))
          in
          (case underlying_copy ext d s non_blocking st2 of
             Inl e \<Rightarrow> (Inl e, st2)
           | Inr st3 \<Rightarrow>
               let st4 = increment_version self st3;
                   st5 = rebase_history self grad_fn st4;
                   st6 = record_trace [TraceSetOutput self] st5
               in (Inr self, st6)))))"

text \<open>\<^verbatim>\<open>resize_\<close> and \<^verbatim>\<open>resize_as_\<close>.\<close>

definition resize_' ::
  "externals \<Rightarrow> tensor \<Rightarrow> int list \<Rightarrow> state \<Rightarrow> (error + tensor) \<times> state" where
  "resize_' ext self new_size st =
     (case unpack ext st self ''self'' 0 of
        Inl e \<Rightarrow> (Inl e, st)
      | Inr Undefined \<Rightarrow> (Inl (NullDereference, []), st)
      | Inr (TensorRef d) \<Rightarrow>
          if requires_grad st self then
            (Inl (InvalidOperation, ''cannot resize variables that require grad''), st)
          else
            let st1 =
              record_trace [TracePopIntArrayRef ''size'', TraceWarn ''resize_'',
                            TraceDelValue self] st
            in
            (case underlying_resize ext d new_size st1 of
               Inl e \<Rightarrow> (Inl e, st1)
             | Inr st2 \<Rightarrow> (Inr self, st2)))"

definition resize_as_' ::
  "externals \<Rightarrow> tensor \<Rightarrow> tensor \<Rightarrow> state \<Rightarrow> (error + tensor) \<times> state" where
  "resize_as_' ext self the_template st =
     (case unpack ext st self ''self'' 0 of
        Inl e \<Rightarrow> (Inl e, st)
      | Inr Undefined \<Rightarrow> (Inl (NullDereference, []), st)
      | Inr (TensorRef d) \<Rightarrow>
      (case unpack ext st the_template ''the_template'' 1 of
        Inl e \<Rightarrow> (Inl e, st)
      | Inr Undefined \<Rightarrow> (Inl (NullDereference, []), st)
      | Inr (TensorRef t) \<Rightarrow>
          if requires_grad st self then
            (Inl (InvalidOperation, ''cannot resize variables that require grad''), st)
          else
            let st1 = record_trace [TraceWarn ''resize_as_'', TraceDelValue self] st
            in
            (case underlying_resize ext d (sizes (impls st1 t)) st1 of
               Inl e \<Rightarrow> (Inl e, st1)
             | Inr st2 \<Rightarrow> (Inr self, st2))))"

text \<open>
  Modelled from the spec: \<^verbatim>\<open>make_variable_view\<close> (declared outside this file) makes a new
  Variable that shares the storage of \<open>data\<close> (a view) and the version counter of
  \<open>base\<close>, with \<open>requires_grad\<close> false, the gradient function of the given edge (null for
  the empty edge), and the two marks it is given: differentiable or not, metadata change
  allowed or locked.
\<close>

definition make_variable_view ::
  "tensor \<Rightarrow> tensor \<Rightarrow> bool \<Rightarrow> bool \<Rightarrow> edge \<Rightarrow> state \<Rightarrow> tensor \<times> state" where
  "make_variable_view base data is_diff allow_change gradient_edge0 st =
     (case (base, data) of
        (TensorRef b, TensorRef d) \<Rightarrow>
          let meta =
                \<lparr>grad_fn_' = (case gradient_edge0 of FnEdge f k \<Rightarrow> Some f | _ \<Rightarrow> None),
                 output_nr_' = (case gradient_edge0 of FnEdge f k \<Rightarrow> k | _ \<Rightarrow> 0),
                 requires_grad_' = False,
                 grad_accumulator_' = WeakEmpty,
                 is_view_' = True,
                 is_differentiable = is_diff\<rparr>;
              impl =
                (impls st d)
                  \<lparr>version_counter := version_counter (impls st b),
                   allow_tensor_metadata_change := allow_change,
                   autograd_meta := Some meta\<rparr>
          in (TensorRef (next_impl st),
              st\<lparr>impls := (impls st)(next_impl st := impl),
                 next_impl := Suc (next_impl st)\<rparr>)
      | _ \<Rightarrow> (Undefined, st))"

text \<open>\<^verbatim>\<open>detach\<close> and \<^verbatim>\<open>detach_\<close>.\<close>

definition detach :: "tensor \<Rightarrow> state \<Rightarrow> tensor \<times> state" where
  "detach self st =
     (let st1 = record_trace [TraceNode ''detach'' [self]] st;
          (result, st2) = make_variable_view self self False False NoEdge st1;
          st3 = record_trace [TraceAddOutput result] st2
      in (result, st3))"

definition detach_' :: "tensor \<Rightarrow> state \<Rightarrow> (error + tensor) \<times> state" where
  "detach_' self st =
     (let st1 = record_trace [TraceNode ''detach'' [self], TraceEnsureUnique ''detach_'' self] st
      in
      if \<not> is_variable st1 self then (Inl (NullDereference, []), st1)
      else if is_view st1 self then
        (Inl (InvalidOperation,
           ''Can'' @ quote @ ''t detach views in-place. Use detach() instead''), st1)
      else
        let st2 = map_autograd_meta (\<lambda>m. m\<lparr>requires_grad_' := False\<rparr>) self st1;
            st3 = map_autograd_meta (\<lambda>m. m\<lparr>grad_fn_' := None\<rparr>) self st2;
            st4 = map_autograd_meta (\<lambda>m. m\<lparr>output_nr_' := 0\<rparr>) self st3;
            st5 = record_trace [TraceAddOutput self] st4
        in (Inr self, st5))"

subsection \<open>An example store\<close>

text \<open>
  A small concrete store on which the theorems below are instantiated: Variables at
  addresses 0, 1, 3, 5 and 6 (1 and 5 have a gradient function, 5 is a view of 1, 3 is a
  leaf that requires gradients with a live accumulator, 6 holds integers), plain tensors
  elsewhere (4 on a CUDA device, 7 sparse).
\<close>

definition leaf_meta :: autograd_meta where
  "leaf_meta =
     \<lparr>grad_fn_' = None, output_nr_' = 0, requires_grad_' = False,
      grad_accumulator_' = WeakEmpty, is_view_' = False, is_differentiable = True\<rparr>"

definition plain_impl :: tensor_impl where
  "plain_impl =
     \<lparr>sizes = [2], storage = 2, tdevice = DeviceCPU, tbackend = CPU, tscalar_type = kFloat,
      version_counter = 2, allow_tensor_metadata_change = True, autograd_meta = None\<rparr>"

definition example_state :: state where
  "example_state =
     \<lparr>impls = (\<lambda>a. plain_impl)
        (0 := plain_impl\<lparr>storage := 0, version_counter := 0, autograd_meta := Some leaf_meta\<rparr>,
         1 := plain_impl\<lparr>storage := 1, version_counter := 1,
                autograd_meta := Some (leaf_meta\<lparr>grad_fn_' := Some 0, output_nr_' := 2\<rparr>)\<rparr>,
         3 := plain_impl\<lparr>storage := 3, version_counter := 3,
                autograd_meta := Some (leaf_meta
                  \<lparr>requires_grad_' := True,
                   grad_accumulator_' := WeakLive \<lparr>input_device = DeviceCPU\<rparr>\<rparr>)\<rparr>,
         4 := plain_impl\<lparr>storage := 4, version_counter := 4, tdevice := DeviceCUDA 0,
                tbackend := CUDA\<rparr>,
         5 := plain_impl\<lparr>storage := 1, version_counter := 1,
                autograd_meta := Some (leaf_meta\<lparr>grad_fn_' := Some 0, is_view_' := True\<rparr>)\<rparr>,
         6 := plain_impl\<lparr>storage := 6, version_counter := 6, tscalar_type := kLong,
                autograd_meta := Some leaf_meta\<rparr>,
         7 := plain_impl\<lparr>storage := 7, version_counter := 7, tbackend := SparseCPU\<rparr>),
      next_impl = 8,
      versions = (\<lambda>a. 0)(0 := 5),
      storages = (\<lambda>a. [])(0 := [1, 2], 1 := [3, 4]),
      nodes = [OtherBackwards []],
      tracing = False,
      force_outplace = False,
      graph = []\<rparr>"

definition example_ext :: externals where
  "example_ext =
     \<lparr>toString = (\<lambda>ty. ''CPUFloatType''),
      has_compatible_shallow_copy_type =
        (\<lambda>a b. (tbackend a \<in> {CPU, CUDA}) = (tbackend b \<in> {CPU, CUDA})),
      check_inplace = (\<lambda>st t. None),
      raw_copy = (\<lambda>d dbuf s sbuf non_blocking. Inr sbuf),
      raw_resize = (\<lambda>d dbuf new_size. Inr (new_size, dbuf))\<rparr>"

section \<open>Properties\<close>

subsection \<open>Unwrap and validate\<close>

lemma show_int_0: "show_int 0 = ''0''"
  by (simp add: show_int_def show_nat.simps digit_char_def)

text \<open>
  Claim C9. \<^verbatim>\<open>unpack(t, name, pos)\<close> fails with \<open>UndefinedTensorError\<close> when \<open>t\<close> is
  undefined and with \<open>NotAVariableError\<close> when \<open>t\<close> is defined and not a Variable; in both
  cases the message ends with the position and the quoted argument name. When \<open>t\<close> is a
  defined Variable the result is \<open>t\<close> itself. In particular, unpacking the undefined
  handle as argument \<open>x\<close> at position 0 fails, in every store, with the message for
  \<open>#0 'x'\<close>.
\<close>

theorem unpack_checks:
  "(\<not> defined t \<longrightarrow>
      (\<exists>pre. unpack ext st t name pos =
         Inl (UndefinedTensorError, pre @ ''#'' @ show_int pos @ '' '' @ quote @ name @ quote)))
   \<and> (defined t \<and> \<not> is_variable st t \<longrightarrow>
      (\<exists>pre. unpack ext st t name pos =
         Inl (NotAVariableError, pre @ ''#'' @ show_int pos @ '' '' @ quote @ name @ quote)))
   \<and> (defined t \<and> is_variable st t \<longrightarrow> unpack ext st t name pos = Inr t)
   \<and> unpack ext st Undefined ''x'' 0 =
       Inl (UndefinedTensorError,
         ''Expected a Tensor of type Variable but found an undefined Tensor for argument #0 ''
           @ quote @ ''x'' @ quote)"
proof (intro conjI impI)
  assume "\<not> defined t"
  then have t: "t = Undefined" by (cases t) simp_all
  show "\<exists>pre. unpack ext st t name pos =
         Inl (UndefinedTensorError, pre @ ''#'' @ show_int pos @ '' '' @ quote @ name @ quote)"
    unfolding t unpack_def checked_cast_variable_def
    by (rule exI[of _ "''Expected a Tensor of type Variable but found an undefined Tensor for argument ''"]) simp
next
  assume a: "defined t \<and> \<not> is_variable st t"
  then obtain a where t: "t = TensorRef a" by (cases t) simp_all
  show "\<exists>pre. unpack ext st t name pos =
         Inl (NotAVariableError, pre @ ''#'' @ show_int pos @ '' '' @ quote @ name @ quote)"
    using a unfolding t unpack_def checked_cast_variable_def
    by (intro exI[of _ "''Expected object of type Variable but found type ''
                @ toString ext (type_of (impls st a)) @ '' for argument ''"]) simp
next
  assume a: "defined t \<and> is_variable st t"
  then show "unpack ext st t name pos = Inr t"
    by (cases t) (simp_all add: unpack_def checked_cast_variable_def)
next
  show "unpack ext st Undefined ''x'' 0 =
       Inl (UndefinedTensorError,
         ''Expected a Tensor of type Variable but found an undefined Tensor for argument #0 ''
           @ quote @ ''x'' @ quote)"
    by (simp add: unpack_def checked_cast_variable_def show_int_0)
qed

theorem unpack_checks_witness:
  "(\<exists>pre. unpack example_ext example_state Undefined ''x'' 0 =
      Inl (UndefinedTensorError, pre @ ''#0 '' @ quote @ ''x'' @ quote))
   \<and> (\<exists>pre. unpack example_ext example_state (TensorRef 2) ''src'' 1 =
      Inl (NotAVariableError, pre @ ''#1 '' @ quote @ ''src'' @ quote))
   \<and> unpack example_ext example_state (TensorRef 0) ''self'' 0 = Inr (TensorRef 0)"
proof -
  have v0: "is_variable example_state (TensorRef 0)"
    by (simp add: is_variable_def example_state_def)
  have v2: "\<not> is_variable example_state (TensorRef 2)"
    by (simp add: is_variable_def example_state_def plain_impl_def)
  have s0: "show_int 0 = ''0''" and s1: "show_int 1 = ''1''"
    by (simp_all add: show_int_def show_nat.simps digit_char_def)
  from unpack_checks[of Undefined example_ext example_state "''x''" 0]
       unpack_checks[of "TensorRef 2" example_ext example_state "''src''" 1]
       unpack_checks[of "TensorRef 0" example_ext example_state "''self''" 0]
       v0 v2 s0 s1
  show ?thesis by simp
qed

lemma unpack_loop_result:
  "unpack_loop ext st ts name pos i ret = Inr r \<Longrightarrow>
     length r = length ret \<and>
     (\<forall>j<length ret. r ! j =
        (if i \<le> j \<and> j < i + length ts \<and> defined (ts ! (j - i)) then ts ! (j - i) else ret ! j))"
proof (induction ts arbitrary: i ret)
  case Nil
  then show ?case by auto
next
  case (Cons t ts)
  show ?case
  proof (cases t)
    case Undefined
    with Cons.prems have "unpack_loop ext st ts name pos (Suc i) ret = Inr r" by simp
    from Cons.IH[OF this] Undefined show ?thesis
      by (auto simp: nth_Cons')
  next
    case (TensorRef a)
    with Cons.prems have v: "is_variable st t"
      and rec: "unpack_loop ext st ts name pos (Suc i) (ret[i := t]) = Inr r"
      by (auto split: if_splits)
    from Cons.IH[OF rec] TensorRef show ?thesis
      by (auto simp: nth_Cons' nth_list_update)
  qed
qed

lemma unpack_loop_succeeds:
  "\<forall>t\<in>set ts. defined t \<longrightarrow> is_variable st t \<Longrightarrow>
     \<exists>r. unpack_loop ext st ts name pos i ret = Inr r"
  by (induction ts arbitrary: i ret) (auto split: tensor.splits)

lemma unpack_loop_fails:
  "\<forall>t\<in>set pre. defined t \<longrightarrow> is_variable st t \<Longrightarrow> \<not> is_variable st (TensorRef a) \<Longrightarrow>
     unpack_loop ext st (pre @ TensorRef a # post) name pos i ret =
       Inl (NotAVariableError,
         ''Expected object of type Variable but found type ''
           @ toString ext (type_of (impls st a)) @ '' at position #'' @ show_nat (i + length pre)
           @ '' for iterable argument #'' @ show_int pos @ '' '' @ quote @ name @ quote)"
  by (induction pre arbitrary: i ret) (auto split: tensor.splits)

text \<open>
  Claim C10. The list form of \<^verbatim>\<open>unpack\<close>: when no element is defined and not a Variable,
  it returns a list of the same length, holding at each index the element itself if it is
  defined and the undefined tensor if it is not. It fails with \<open>NotAVariableError\<close>
  exactly when some element is defined and not a Variable, and it fails at the first such
  element: the message names its index, whatever comes after it.
\<close>

theorem unpack_list_checks:
  "((\<forall>t\<in>set ts. defined t \<longrightarrow> is_variable st t) \<longrightarrow>
      (\<exists>ret. unpack_list ext st ts name pos = Inr ret \<and> length ret = length ts \<and>
         (\<forall>i<length ts. ret ! i = (if defined (ts ! i) then ts ! i else Undefined))))
   \<and> ((\<forall>t\<in>set pre. defined t \<longrightarrow> is_variable st t) \<and> \<not> is_variable st (TensorRef a) \<longrightarrow>
      unpack_list ext st (pre @ TensorRef a # post) name pos =
        Inl (NotAVariableError,
          ''Expected object of type Variable but found type ''
            @ toString ext (type_of (impls st a)) @ '' at position #'' @ show_nat (length pre)
            @ '' for iterable argument #'' @ show_int pos @ '' '' @ quote @ name @ quote))
   \<and> ((\<exists>msg. unpack_list ext st ts name pos = Inl (NotAVariableError, msg)) =
        (\<exists>t\<in>set ts. defined t \<and> \<not> is_variable st t))"
proof (intro conjI impI)
  assume ok: "\<forall>t\<in>set ts. defined t \<longrightarrow> is_variable st t"
  from unpack_loop_succeeds[OF ok]
  obtain r where r: "unpack_loop ext st ts name pos 0 (replicate (length ts) Undefined) = Inr r"
    by blast
  from unpack_loop_result[OF r]
  have "length r = length ts"
    and "\<forall>i<length ts. r ! i = (if defined (ts ! i) then ts ! i else Undefined)"
    by auto
  with r show "\<exists>ret. unpack_list ext st ts name pos = Inr ret \<and> length ret = length ts \<and>
         (\<forall>i<length ts. ret ! i = (if defined (ts ! i) then ts ! i else Undefined))"
    by (simp add: unpack_list_def)
next
  assume "(\<forall>t\<in>set pre. defined t \<longrightarrow> is_variable st t) \<and> \<not> is_variable st (TensorRef a)"
  then show "unpack_list ext st (pre @ TensorRef a # post) name pos =
        Inl (NotAVariableError,
          ''Expected object of type Variable but found type ''
            @ toString ext (type_of (impls st a)) @ '' at position #'' @ show_nat (length pre)
            @ '' for iterable argument #'' @ show_int pos @ '' '' @ quote @ name @ quote)"
    using unpack_loop_fails[of pre st a ext post name pos 0] by (simp add: unpack_list_def)
next
  show "(\<exists>msg. unpack_list ext st ts name pos = Inl (NotAVariableError, msg)) =
        (\<exists>t\<in>set ts. defined t \<and> \<not> is_variable st t)"
  proof
    assume "\<exists>msg. unpack_list ext st ts name pos = Inl (NotAVariableError, msg)"
    then have "\<not> (\<exists>r. unpack_loop ext st ts name pos 0 (replicate (length ts) Undefined) = Inr r)"
      by (auto simp: unpack_list_def)
    with unpack_loop_succeeds[of ts st ext name pos 0 "replicate (length ts) Undefined"]
    show "\<exists>t\<in>set ts. defined t \<and> \<not> is_variable st t" by blast
  next
    assume "\<exists>t\<in>set ts. defined t \<and> \<not> is_variable st t"
    then obtain pre t post where ts: "ts = pre @ t # post"
      and t: "defined t \<and> \<not> is_variable st t"
      and pre: "\<forall>u\<in>set pre. \<not> (defined u \<and> \<not> is_variable st u)"
      using split_list_first_prop[of ts "\<lambda>t. defined t \<and> \<not> is_variable st t"] by blast
    from t obtain a where a: "t = TensorRef a" by (cases t) simp_all
    from pre have pre': "\<forall>u\<in>set pre. defined u \<longrightarrow> is_variable st u" by blast
    from t a have nv: "\<not> is_variable st (TensorRef a)" by simp
    show "\<exists>msg. unpack_list ext st ts name pos = Inl (NotAVariableError, msg)"
      using unpack_loop_fails[OF pre' nv, of ext post name pos 0] ts a
      by (simp add: unpack_list_def)
  qed
qed

theorem unpack_list_checks_witness:
  "unpack_list example_ext example_state [Undefined, TensorRef 0, Undefined, TensorRef 1] ''tensors'' 0
     = Inr [Undefined, TensorRef 0, Undefined, TensorRef 1]
   \<and> (\<exists>msg. unpack_list example_ext example_state [TensorRef 0, Undefined, TensorRef 2, TensorRef 4]
        ''tensors'' 0 = Inl (NotAVariableError, msg))"
proof -
  have v0: "is_variable example_state (TensorRef 0)" and v1: "is_variable example_state (TensorRef 1)"
    by (simp_all add: is_variable_def example_state_def)
  have v2: "\<not> is_variable example_state (TensorRef 2)"
    by (simp add: is_variable_def example_state_def plain_impl_def)
  have ok: "\<forall>t\<in>set [Undefined, TensorRef 0, Undefined, TensorRef 1].
              defined t \<longrightarrow> is_variable example_state t"
    using v0 v1 by simp
  from unpack_list_checks[of "[Undefined, TensorRef 0, Undefined, TensorRef 1]" example_state
         example_ext "''tensors''" 0 "[TensorRef 0, Undefined]" 2 "[TensorRef 4]"] ok v0 v2
  obtain ret where r: "unpack_list example_ext example_state
        [Undefined, TensorRef 0, Undefined, TensorRef 1] ''tensors'' 0 = Inr ret"
     and len: "length ret = 4"
     and el: "\<forall>i<4. ret ! i = (if defined ([Undefined, TensorRef 0, Undefined, TensorRef 1] ! i)
                then [Undefined, TensorRef 0, Undefined, TensorRef 1] ! i else Undefined)"
     and fl: "\<exists>msg. unpack_list example_ext example_state
        [TensorRef 0, Undefined, TensorRef 2, TensorRef 4] ''tensors'' 0 = Inl (NotAVariableError, msg)"
    by auto
  have "ret = [Undefined, TensorRef 0, Undefined, TensorRef 1]"
  proof (rule nth_equalityI)
    show "length ret = length [Undefined, TensorRef 0, Undefined, TensorRef 1]" using len by simp
  next
    fix i assume "i < length ret"
    then have "i < 4" using len by simp
    then have "i = 0 \<or> i = 1 \<or> i = 2 \<or> i = 3" by arith
    with el show "ret ! i = [Undefined, TensorRef 0, Undefined, TensorRef 1] ! i"
      by (auto simp: numeral_2_eq_2 numeral_3_eq_3)
  qed
  with r fl show ?thesis by simp
qed

subsection \<open>Metadata access\<close>

lemma output_nr_boolean:
  "output_nr st v = Inr n \<Longrightarrow> n = 0 \<or> n = 1"
  by (auto simp: output_nr_def split: option.splits if_splits)

text \<open>
  Claim C3. \<^verbatim>\<open>output_nr\<close> is meant to return the stored output slot index. As written
  it returns the truth value of a comparison: on the Variable at address 1 of the example
  store, whose stored slot index is 2, it returns 0.
\<close>

theorem output_nr_returns_truth_value:
  "map_option output_nr_' (get_autograd_meta example_state (TensorRef 1)) = Some 2
   \<and> output_nr example_state (TensorRef 1) = Inr 0"
  by (simp add: output_nr_def example_state_def leaf_meta_def)

subsection \<open>Tracing and frame lemmas\<close>

lemma record_trace_fields [simp]:
  "impls (record_trace evs st) = impls st"
  "next_impl (record_trace evs st) = next_impl st"
  "versions (record_trace evs st) = versions st"
  "storages (record_trace evs st) = storages st"
  "nodes (record_trace evs st) = nodes st"
  "tracing (record_trace evs st) = tracing st"
  "force_outplace (record_trace evs st) = force_outplace st"
  by (simp_all add: record_trace_def)

lemma record_trace_reads [simp]:
  "get_autograd_meta (record_trace evs st) t = get_autograd_meta st t"
  "is_variable (record_trace evs st) t = is_variable st t"
  "requires_grad (record_trace evs st) t = requires_grad st t"
  "is_view (record_trace evs st) t = is_view st t"
  "current_version (record_trace evs st) t = current_version st t"
  by (cases t; simp add: is_variable_def requires_grad_def is_view_def)+

lemma trace_copy_entry_fields [simp]:
  "impls (trace_copy_entry self src st) = impls st"
  "next_impl (trace_copy_entry self src st) = next_impl st"
  "versions (trace_copy_entry self src st) = versions st"
  "storages (trace_copy_entry self src st) = storages st"
  "nodes (trace_copy_entry self src st) = nodes st"
  by (simp_all add: trace_copy_entry_def)

lemma trace_copy_entry_reads [simp]:
  "get_autograd_meta (trace_copy_entry self src st) t = get_autograd_meta st t"
  "is_variable (trace_copy_entry self src st) t = is_variable st t"
  "requires_grad (trace_copy_entry self src st) t = requires_grad st t"
  "current_version (trace_copy_entry self src st) t = current_version st t"
  by (simp_all add: trace_copy_entry_def)

lemma gradient_edge_trace [simp]:
  "gradient_edge (trace_copy_entry self src st) t = gradient_edge st t"
  by (cases t) (simp_all split: option.splits)

lemma unpack_trace [simp]:
  "unpack ext (trace_copy_entry self src st) t name pos = unpack ext st t name pos"
  by (cases t) (simp_all add: unpack_def checked_cast_variable_def)

lemma unpack_variable:
  "autograd_meta (impls st a) = Some m \<Longrightarrow>
     unpack ext st (TensorRef a) name pos = Inr (TensorRef a)"
  by (simp add: unpack_def checked_cast_variable_def is_variable_def)

lemma unpack_Inr:
  "unpack ext st t name pos = Inr r \<Longrightarrow>
     r = t \<and> (\<exists>a m. t = TensorRef a \<and> autograd_meta (impls st a) = Some m)"
  by (cases t) (auto simp: unpack_def checked_cast_variable_def is_variable_def split: if_splits)

lemma increment_version_fields [simp]:
  "impls (increment_version t st) = impls st"
  "storages (increment_version t st) = storages st"
  "nodes (increment_version t st) = nodes st"
  by (cases t; simp)+

lemma rebase_history_fields [simp]:
  "versions (rebase_history t f st) = versions st"
  "storages (rebase_history t f st) = storages st"
  "nodes (rebase_history t f st) = nodes st"
  by (cases t; cases f; simp add: rebase_history_def)+

lemma rebase_history_impl:
  "version_counter (impls (rebase_history t f st) b) = version_counter (impls st b)"
  "storage (impls (rebase_history t f st) b) = storage (impls st b)"
  by (cases t; cases f; simp add: rebase_history_def)+

lemma lock_live: "lock w = Some acc \<Longrightarrow> w \<noteq> WeakEmpty"
  by (cases w) simp_all

lemmas example_defs = example_state_def example_ext_def leaf_meta_def plain_impl_def

lemma example_trace [simp]: "trace_copy_entry self src example_state = example_state"
  by (simp add: trace_copy_entry_def record_trace_def example_state_def)

subsection \<open>The data swap\<close>

text \<open>
  Claim C4. When \<open>self\<close> and \<open>new_data\<close> have incompatible shallow-copy types,
  \<^verbatim>\<open>set_data\<close> raises \<open>IncompatibleTypeError\<close> and the whole store, with every field of
  \<open>self\<close>, its autograd metadata and its accumulator, is what it was before the call.
\<close>

theorem set_data_incompatible:
  "\<not> has_compatible_shallow_copy_type ext (impls st a) (impls st n) \<Longrightarrow>
     (\<exists>msg. fst (set_data ext (TensorRef a) (TensorRef n) st) = Inl (IncompatibleTypeError, msg))
     \<and> snd (set_data ext (TensorRef a) (TensorRef n) st) = st"
  by (simp add: set_data_def)

theorem set_data_incompatible_witness:
  "(\<exists>msg. fst (set_data example_ext (TensorRef 3) (TensorRef 7) example_state)
       = Inl (IncompatibleTypeError, msg))
   \<and> snd (set_data example_ext (TensorRef 3) (TensorRef 7) example_state) = example_state"
proof -
  have "\<not> has_compatible_shallow_copy_type example_ext
           (impls example_state 3) (impls example_state 7)"
    by (simp add: example_defs)
  from set_data_incompatible[OF this] show ?thesis .
qed

lemma set_data_meta:
  assumes "has_compatible_shallow_copy_type ext (impls st a) (impls st n)"
    and "autograd_meta (impls st a) = Some m"
  shows "fst (set_data ext (TensorRef a) (TensorRef n) st) = Inr ()"
    and "autograd_meta (impls (snd (set_data ext (TensorRef a) (TensorRef n) st)) a) =
           Some (if \<exists>acc. lock (grad_accumulator_' m) = Some acc
                      \<and> (type_of (impls st n) \<noteq> type_of (impls st a)
                         \<or> input_device acc \<noteq> tdevice (impls st n))
                 then m\<lparr>grad_accumulator_' := WeakEmpty\<rparr> else m)"
  using assms
  by (auto simp: set_data_def Let_def shallow_copy_from_def split: option.splits)

text \<open>
  Claim C5. With compatible types, \<^verbatim>\<open>set_data\<close> succeeds, and the accumulator pointer of
  \<open>self\<close> changes (it is reset to empty) if and only if it locks to a live accumulator and
  the type of \<open>new_data\<close> differs from the type of \<open>self\<close> or the device of
  \<open>new_data\<close> differs from the prior device, which the code reads from the accumulator's
  input metadata; otherwise the pointer is left as it was. In particular a live accumulator
  made on one device is always reset by data on another device. When the accumulator was
  made on the device \<open>self\<close> is on, the prior device is the device of \<open>self\<close>, and
  the condition is the claim's: the type or device of \<open>new_data\<close> differs from that of
  \<open>self\<close>.
\<close>

theorem set_data_accumulator:
  assumes "has_compatible_shallow_copy_type ext (impls st a) (impls st n)"
    and "autograd_meta (impls st a) = Some m"
  shows "fst (set_data ext (TensorRef a) (TensorRef n) st) = Inr ()
       \<and> (\<exists>m'. autograd_meta (impls (snd (set_data ext (TensorRef a) (TensorRef n) st)) a) = Some m'
            \<and> (grad_accumulator_' m' \<noteq> grad_accumulator_' m) =
                (\<exists>acc. lock (grad_accumulator_' m) = Some acc
                   \<and> (type_of (impls st n) \<noteq> type_of (impls st a)
                      \<or> input_device acc \<noteq> tdevice (impls st n)))
            \<and> grad_accumulator_' m' =
                (if \<exists>acc. lock (grad_accumulator_' m) = Some acc
                      \<and> (type_of (impls st n) \<noteq> type_of (impls st a)
                         \<or> input_device acc \<noteq> tdevice (impls st n))
                 then WeakEmpty else grad_accumulator_' m)
            \<and> (\<forall>acc. lock (grad_accumulator_' m) = Some acc
                   \<and> input_device acc \<noteq> tdevice (impls st n)
                 \<longrightarrow> grad_accumulator_' m' = WeakEmpty)
            \<and> ((\<forall>acc. lock (grad_accumulator_' m) = Some acc
                   \<longrightarrow> input_device acc = tdevice (impls st a))
                 \<longrightarrow> (grad_accumulator_' m' \<noteq> grad_accumulator_' m) =
                       (lock (grad_accumulator_' m) \<noteq> None
                        \<and> (type_of (impls st n) \<noteq> type_of (impls st a)
                           \<or> tdevice (impls st n) \<noteq> tdevice (impls st a)))))"
proof -
  define due where "due \<longleftrightarrow> (\<exists>acc. lock (grad_accumulator_' m) = Some acc
         \<and> (type_of (impls st n) \<noteq> type_of (impls st a)
            \<or> input_device acc \<noteq> tdevice (impls st n)))"
  define m' where "m' = (if due then m\<lparr>grad_accumulator_' := WeakEmpty\<rparr> else m)"
  have ok: "fst (set_data ext (TensorRef a) (TensorRef n) st) = Inr ()"
    by (rule set_data_meta(1)[OF assms])
  have meta: "autograd_meta (impls (snd (set_data ext (TensorRef a) (TensorRef n) st)) a) = Some m'"
    unfolding m'_def due_def by (rule set_data_meta(2)[OF assms])
  have val: "grad_accumulator_' m' = (if due then WeakEmpty else grad_accumulator_' m)"
    by (simp add: m'_def)
  have changed: "(grad_accumulator_' m' \<noteq> grad_accumulator_' m) = due"
    using lock_live[of "grad_accumulator_' m"] by (auto simp: val due_def)
  have particular: "\<forall>acc. lock (grad_accumulator_' m) = Some acc
                   \<and> input_device acc \<noteq> tdevice (impls st n)
                 \<longrightarrow> grad_accumulator_' m' = WeakEmpty"
    by (auto simp: val due_def)
  have sync: "(\<forall>acc. lock (grad_accumulator_' m) = Some acc
                   \<longrightarrow> input_device acc = tdevice (impls st a))
                 \<longrightarrow> (grad_accumulator_' m' \<noteq> grad_accumulator_' m) =
                       (lock (grad_accumulator_' m) \<noteq> None
                        \<and> (type_of (impls st n) \<noteq> type_of (impls st a)
                           \<or> tdevice (impls st n) \<noteq> tdevice (impls st a)))"
    unfolding changed by (auto simp: due_def)
  from ok meta changed val particular sync show ?thesis
    unfolding due_def by blast
qed

theorem set_data_accumulator_witness:
  "fst (set_data example_ext (TensorRef 3) (TensorRef 4) example_state) = Inr ()
   \<and> map_option grad_accumulator_'
        (autograd_meta (impls (snd (set_data example_ext (TensorRef 3) (TensorRef 4) example_state)) 3))
       = Some WeakEmpty
   \<and> map_option grad_accumulator_'
        (autograd_meta (impls (snd (set_data example_ext (TensorRef 3) (TensorRef 0) example_state)) 3))
       = Some (WeakLive \<lparr>input_device = DeviceCPU\<rparr>)"
proof -
  have c4: "has_compatible_shallow_copy_type example_ext
              (impls example_state 3) (impls example_state 4)"
    and c0: "has_compatible_shallow_copy_type example_ext
              (impls example_state 3) (impls example_state 0)"
    by (simp_all add: example_defs)
  have m3: "autograd_meta (impls example_state 3) =
      Some (leaf_meta\<lparr>requires_grad_' := True,
                       grad_accumulator_' := WeakLive \<lparr>input_device = DeviceCPU\<rparr>\<rparr>)"
    by (simp add: example_state_def)
  have d4: "tdevice (impls example_state 4) = DeviceCUDA 0"
    and d0: "tdevice (impls example_state 0) = DeviceCPU"
    and t0: "type_of (impls example_state 0) = type_of (impls example_state 3)"
    by (simp_all add: example_defs type_of_def)
  from set_data_accumulator[OF c4 m3] set_data_accumulator[OF c0 m3] d4 d0 t0
  show ?thesis by auto
qed

subsection \<open>In-place copy\<close>

lemma copy_unfold:
  assumes "autograd_meta (impls st d) = Some m" and "autograd_meta (impls st s) = Some ms"
    and "check_inplace ext (trace_copy_entry (TensorRef d) (TensorRef s) st) (TensorRef d) = None"
    and "b = ((requires_grad st (TensorRef d) \<or> requires_grad st (TensorRef s))
              \<and> isFloatingPoint (tscalar_type (impls st d)))"
  shows "copy_' ext (TensorRef d) (TensorRef s) nb st =
     (let st1 = trace_copy_entry (TensorRef d) (TensorRef s) st;
          st2 = (if b
                 then st1\<lparr>nodes := nodes st @
                        [CopyBackwards (collect_next_edges st [TensorRef d, TensorRef s])
                           (options (impls st s)) (tdevice (impls st s))]\<rparr>
                 else st1)
      in case raw_copy ext (impls st d) (storages st (storage (impls st d)))
                (impls st s) (storages st (storage (impls st s))) nb of
           Inl msg \<Rightarrow> (Inl (StorageError, msg), st2)
         | Inr buf \<Rightarrow>
             (Inr (TensorRef d),
              record_trace [TraceSetOutput (TensorRef d)]
                (rebase_history (TensorRef d)
                   (if b then Some (length (nodes st)) else None)
                   (increment_version (TensorRef d)
                      (st2\<lparr>storages := (storages st)(storage (impls st d) := buf)\<rparr>)))))"
  using assms
  by (auto simp: copy_'_def unpack_variable Let_def compute_requires_grad_def make_shared_def
        collect_next_edges_def underlying_copy_def split: sum.splits)

lemma copy_early_failure:
  assumes "\<not> (\<exists>d s m ms. self = TensorRef d \<and> src = TensorRef s
              \<and> autograd_meta (impls st d) = Some m \<and> autograd_meta (impls st s) = Some ms
              \<and> check_inplace ext (trace_copy_entry self src st) self = None)"
  shows "\<exists>e. copy_' ext self src nb st = (Inl e, trace_copy_entry self src st)"
proof (cases "unpack ext st self ''self'' 0")
  case (Inl e)
  then show ?thesis by (simp add: copy_'_def)
next
  case (Inr r)
  from unpack_Inr[OF Inr] obtain d m where d: "r = self" "self = TensorRef d"
    "autograd_meta (impls st d) = Some m" by blast
  show ?thesis
  proof (cases "unpack ext st src ''src'' 1")
    case (Inl e)
    then show ?thesis using Inr d by (simp add: copy_'_def)
  next
    case Inr2: (Inr r2)
    from unpack_Inr[OF Inr2] obtain s ms where s: "r2 = src" "src = TensorRef s"
      "autograd_meta (impls st s) = Some ms" by blast
    from assms d s obtain msg where
      "check_inplace ext (trace_copy_entry self src st) self = Some msg" by auto
    then show ?thesis using Inr Inr2 d s by (simp add: copy_'_def)
  qed
qed

text \<open>
  Claim C2. Every successful \<^verbatim>\<open>copy_\<close> leaves the version of \<open>dst\<close> exactly one above
  what it was, whether or not a node is built: the underlying copy has been applied to the
  storage of \<open>dst\<close>, and its version counter, and no other, has been bumped once. Every
  failing \<^verbatim>\<open>copy_\<close>, the failure of the underlying copy included, leaves all version
  counters, storages and tensor objects as they were.
\<close>

theorem copy_version:
  "(\<forall>r. fst (copy_' ext self src nb st) = Inr r \<longrightarrow>
      current_version (snd (copy_' ext self src nb st)) self = Suc (current_version st self)
      \<and> (\<exists>d s buf. self = TensorRef d \<and> src = TensorRef s
            \<and> raw_copy ext (impls st d) (storages st (storage (impls st d)))
                 (impls st s) (storages st (storage (impls st s))) nb = Inr buf
            \<and> storages (snd (copy_' ext self src nb st))
                 = (storages st)(storage (impls st d) := buf)
            \<and> versions (snd (copy_' ext self src nb st))
                 = (versions st)(version_counter (impls st d) :=
                      Suc (versions st (version_counter (impls st d))))))
   \<and> (\<forall>e. fst (copy_' ext self src nb st) = Inl e \<longrightarrow>
        versions (snd (copy_' ext self src nb st)) = versions st
        \<and> storages (snd (copy_' ext self src nb st)) = storages st
        \<and> impls (snd (copy_' ext self src nb st)) = impls st)"
proof (cases "\<exists>d s m ms. self = TensorRef d \<and> src = TensorRef s
              \<and> autograd_meta (impls st d) = Some m \<and> autograd_meta (impls st s) = Some ms
              \<and> check_inplace ext (trace_copy_entry self src st) self = None")
  case False
  from copy_early_failure[OF False, of nb] show ?thesis by auto
next
  case True
  then obtain d s m ms where v: "self = TensorRef d" "src = TensorRef s"
     "autograd_meta (impls st d) = Some m" "autograd_meta (impls st s) = Some ms"
     "check_inplace ext (trace_copy_entry (TensorRef d) (TensorRef s) st) (TensorRef d) = None"
    by auto
  show ?thesis
    unfolding v(1,2) copy_unfold[OF v(3,4,5) refl]
    by (auto simp: Let_def rebase_history_impl split: sum.splits)
qed

theorem copy_version_witness:
  "current_version (snd (copy_' example_ext (TensorRef 0) (TensorRef 1) False example_state))
      (TensorRef 0) = 6
   \<and> current_version example_state (TensorRef 0) = 5
   \<and> storages (snd (copy_' example_ext (TensorRef 0) (TensorRef 1) False example_state)) 0 = [3, 4]
   \<and> versions (snd (copy_'
          (example_ext\<lparr>raw_copy := \<lambda>d dbuf s sbuf non_blocking. Inl ''size mismatch''\<rparr>)
          (TensorRef 0) (TensorRef 1) False example_state)) = versions example_state"
proof -
  have m0: "autograd_meta (impls example_state 0) = Some leaf_meta"
    and m1: "autograd_meta (impls example_state 1) =
               Some (leaf_meta\<lparr>grad_fn_' := Some 0, output_nr_' := 2\<rparr>)"
    by (simp_all add: example_state_def)
  have ok: "fst (copy_' example_ext (TensorRef 0) (TensorRef 1) False example_state)
              = Inr (TensorRef 0)"
    by (subst copy_unfold[OF m0 m1 _ refl]) (simp_all add: example_ext_def Let_def)
  have bad: "fst (copy_'
          (example_ext\<lparr>raw_copy := \<lambda>d dbuf s sbuf non_blocking. Inl ''size mismatch''\<rparr>)
          (TensorRef 0) (TensorRef 1) False example_state) = Inl (StorageError, ''size mismatch'')"
    by (subst copy_unfold[OF m0 m1 _ refl]) (simp_all add: example_ext_def Let_def)
  have v: "current_version example_state (TensorRef 0) = 5"
    and s0: "storage (impls example_state 0) = 0" and s1: "storage (impls example_state 1) = 1"
    and b1: "storages example_state 1 = [3, 4]"
    and rc: "raw_copy example_ext = (\<lambda>d dbuf s sbuf non_blocking. Inr sbuf)"
    by (simp_all add: example_defs)
  from copy_version[of example_ext "TensorRef 0" "TensorRef 1" False example_state] ok s0 s1 b1 rc
  have "current_version (snd (copy_' example_ext (TensorRef 0) (TensorRef 1) False example_state))
          (TensorRef 0) = Suc (current_version example_state (TensorRef 0))"
    and "storages (snd (copy_' example_ext (TensorRef 0) (TensorRef 1) False example_state)) 0
          = [3, 4]"
    by auto
  moreover
  from copy_version[of "example_ext\<lparr>raw_copy := \<lambda>d dbuf s sbuf non_blocking. Inl ''size mismatch''\<rparr>"
          "TensorRef 0" "TensorRef 1" False example_state] bad
  have "versions (snd (copy_'
          (example_ext\<lparr>raw_copy := \<lambda>d dbuf s sbuf non_blocking. Inl ''size mismatch''\<rparr>)
          (TensorRef 0) (TensorRef 1) False example_state)) = versions example_state"
    by simp
  ultimately show ?thesis using v by simp
qed

text \<open>
  Claim C1. For Variables \<open>dst\<close> and \<open>src\<close> that pass the in-place safety check,
  \<^verbatim>\<open>copy_\<close> builds a node if and only if \<open>dst\<close> or \<open>src\<close> requires gradients and the
  element type of \<open>dst\<close> is floating-point. The node built is a \<open>CopyBackwards\<close> with the
  edges of \<open>dst\<close> and \<open>src\<close> and the options and device of \<open>src\<close>, and a successful
  call rebases \<open>dst\<close> onto it at slot 0. When no node is built the autograd metadata of
  \<open>dst\<close>, so its \<open>grad_fn\<close>, is what it was. When the safety check rejects, the call
  fails with its message before anything is built.
\<close>

theorem copy_builds_node:
  assumes "autograd_meta (impls st d) = Some m" and "autograd_meta (impls st s) = Some ms"
  shows "(check_inplace ext (trace_copy_entry (TensorRef d) (TensorRef s) st) (TensorRef d) = None \<longrightarrow>
           ((nodes (snd (copy_' ext (TensorRef d) (TensorRef s) nb st)) \<noteq> nodes st)
              = ((requires_grad st (TensorRef d) \<or> requires_grad st (TensorRef s))
                 \<and> isFloatingPoint (tscalar_type (impls st d))))
           \<and> ((requires_grad st (TensorRef d) \<or> requires_grad st (TensorRef s))
                 \<and> isFloatingPoint (tscalar_type (impls st d)) \<longrightarrow>
                nodes (snd (copy_' ext (TensorRef d) (TensorRef s) nb st)) =
                  nodes st @ [CopyBackwards (collect_next_edges st [TensorRef d, TensorRef s])
                                (options (impls st s)) (tdevice (impls st s))]
                \<and> (\<forall>r. fst (copy_' ext (TensorRef d) (TensorRef s) nb st) = Inr r \<longrightarrow>
                      get_autograd_meta (snd (copy_' ext (TensorRef d) (TensorRef s) nb st))
                          (TensorRef d)
                        = Some (m\<lparr>grad_fn_' := Some (length (nodes st)), output_nr_' := 0\<rparr>)))
           \<and> (\<not> ((requires_grad st (TensorRef d) \<or> requires_grad st (TensorRef s))
                 \<and> isFloatingPoint (tscalar_type (impls st d))) \<longrightarrow>
                nodes (snd (copy_' ext (TensorRef d) (TensorRef s) nb st)) = nodes st
                \<and> get_autograd_meta (snd (copy_' ext (TensorRef d) (TensorRef s) nb st))
                      (TensorRef d) = Some m))
       \<and> (\<forall>msg. check_inplace ext (trace_copy_entry (TensorRef d) (TensorRef s) st) (TensorRef d)
                   = Some msg \<longrightarrow>
            fst (copy_' ext (TensorRef d) (TensorRef s) nb st) = Inl (ViewSafetyError, msg)
            \<and> nodes (snd (copy_' ext (TensorRef d) (TensorRef s) nb st)) = nodes st
            \<and> impls (snd (copy_' ext (TensorRef d) (TensorRef s) nb st)) = impls st)"
proof (cases "check_inplace ext (trace_copy_entry (TensorRef d) (TensorRef s) st) (TensorRef d)")
  case None
  show ?thesis
    unfolding copy_unfold[OF assms None refl] using assms None
    by (auto simp: Let_def rebase_history_def split: sum.splits)
next
  case (Some msg)
  then show ?thesis using assms
    by (simp add: copy_'_def unpack_variable)
qed

theorem copy_builds_node_witness:
  "nodes (snd (copy_' example_ext (TensorRef 0) (TensorRef 1) False example_state))
     = [OtherBackwards [], CopyBackwards [NoEdge, FnEdge 0 2] (kFloat, DeviceCPU, CPU) DeviceCPU]
   \<and> get_autograd_meta (snd (copy_' example_ext (TensorRef 0) (TensorRef 1) False example_state))
         (TensorRef 0) = Some (leaf_meta\<lparr>grad_fn_' := Some 1\<rparr>)
   \<and> nodes (snd (copy_' example_ext (TensorRef 6) (TensorRef 1) False example_state))
       = [OtherBackwards []]
   \<and> get_autograd_meta (snd (copy_' example_ext (TensorRef 6) (TensorRef 1) False example_state))
         (TensorRef 6) = Some leaf_meta
   \<and> nodes (snd (copy_' example_ext (TensorRef 0) (TensorRef 6) False example_state))
       = [OtherBackwards []]
   \<and> fst (copy_' (example_ext\<lparr>check_inplace := \<lambda>st t. Some ''rejected''\<rparr>)
             (TensorRef 0) (TensorRef 1) False example_state) = Inl (ViewSafetyError, ''rejected'')"
proof -
  have m0: "autograd_meta (impls example_state 0) = Some leaf_meta"
    and m1: "autograd_meta (impls example_state 1) =
               Some (leaf_meta\<lparr>grad_fn_' := Some 0, output_nr_' := 2\<rparr>)"
    and m6: "autograd_meta (impls example_state 6) = Some leaf_meta"
    by (simp_all add: example_state_def)
  have chk: "check_inplace example_ext st t = None" for st t
    by (simp add: example_ext_def)
  have rej: "check_inplace (example_ext\<lparr>check_inplace := \<lambda>st t. Some ''rejected''\<rparr>) st t
               = Some ''rejected''" for st t
    by simp
  have ok: "fst (copy_' example_ext (TensorRef 0) (TensorRef 1) False example_state)
              = Inr (TensorRef 0)"
    by (subst copy_unfold[OF m0 m1 _ refl]) (simp_all add: example_ext_def Let_def)
  have r0: "\<not> requires_grad example_state (TensorRef 0)"
    and r1: "requires_grad example_state (TensorRef 1)"
    and r6: "\<not> requires_grad example_state (TensorRef 6)"
    and f0: "isFloatingPoint (tscalar_type (impls example_state 0))"
    and f6: "\<not> isFloatingPoint (tscalar_type (impls example_state 6))"
    and n: "nodes example_state = [OtherBackwards []]"
    and e: "collect_next_edges example_state [TensorRef 0, TensorRef 1] = [NoEdge, FnEdge 0 2]"
    and o: "options (impls example_state 1) = (kFloat, DeviceCPU, CPU)"
           "tdevice (impls example_state 1) = DeviceCPU"
    by (simp_all add: requires_grad_def collect_next_edges_def options_def example_defs)
  from copy_builds_node[OF m0 m1, of example_ext False] chk r0 r1 f0 ok n e o
  have a: "nodes (snd (copy_' example_ext (TensorRef 0) (TensorRef 1) False example_state))
     = [OtherBackwards [], CopyBackwards [NoEdge, FnEdge 0 2] (kFloat, DeviceCPU, CPU) DeviceCPU]"
    and b: "get_autograd_meta
              (snd (copy_' example_ext (TensorRef 0) (TensorRef 1) False example_state))
              (TensorRef 0) = Some (leaf_meta\<lparr>grad_fn_' := Some 1\<rparr>)"
    by (simp_all add: leaf_meta_def)
  from copy_builds_node[OF m6 m1, of example_ext False] chk f6 n
  have c: "nodes (snd (copy_' example_ext (TensorRef 6) (TensorRef 1) False example_state))
             = [OtherBackwards []]"
    and d: "get_autograd_meta
              (snd (copy_' example_ext (TensorRef 6) (TensorRef 1) False example_state))
              (TensorRef 6) = Some leaf_meta"
    by simp_all
  from copy_builds_node[OF m0 m6, of example_ext False] chk r0 r6 n
  have e': "nodes (snd (copy_' example_ext (TensorRef 0) (TensorRef 6) False example_state))
              = [OtherBackwards []]"
    by simp
  from copy_builds_node[OF m0 m1, of "example_ext\<lparr>check_inplace := \<lambda>st t. Some ''rejected''\<rparr>" False]
    rej
  have f: "fst (copy_' (example_ext\<lparr>check_inplace := \<lambda>st t. Some ''rejected''\<rparr>)
             (TensorRef 0) (TensorRef 1) False example_state) = Inl (ViewSafetyError, ''rejected'')"
    by simp
  from a b c d e' f show ?thesis by simp
qed

subsection \<open>In-place resize\<close>

lemma underlying_resize_frame:
  "underlying_resize ext d new_size st = Inr st' \<Longrightarrow>
     autograd_meta (impls st' b) = autograd_meta (impls st b) \<and> versions st' = versions st
     \<and> nodes st' = nodes st"
  by (auto simp: underlying_resize_def split: sum.splits prod.splits)

lemma underlying_resize_kind:
  "underlying_resize ext d new_size st = Inl e \<Longrightarrow> fst e = StorageError"
  by (auto simp: underlying_resize_def split: sum.splits prod.splits)

lemma resize_cases:
  assumes "autograd_meta (impls st a) = Some m"
  shows "(requires_grad st (TensorRef a) \<longrightarrow>
            resize_' ext (TensorRef a) new_size st =
              (Inl (InvalidOperation, ''cannot resize variables that require grad''), st))
       \<and> (\<not> requires_grad st (TensorRef a) \<longrightarrow>
            resize_' ext (TensorRef a) new_size st =
              (case underlying_resize ext a new_size
                      (record_trace [TracePopIntArrayRef ''size'', TraceWarn ''resize_'',
                                     TraceDelValue (TensorRef a)] st) of
                 Inl e \<Rightarrow> (Inl e, record_trace [TracePopIntArrayRef ''size'', TraceWarn ''resize_'',
                                     TraceDelValue (TensorRef a)] st)
               | Inr st2 \<Rightarrow> (Inr (TensorRef a), st2)))"
  using assms by (simp add: resize_'_def unpack_variable Let_def)

lemma resize_as_cases:
  assumes "autograd_meta (impls st a) = Some m" and "autograd_meta (impls st t) = Some mt"
  shows "(requires_grad st (TensorRef a) \<longrightarrow>
            resize_as_' ext (TensorRef a) (TensorRef t) st =
              (Inl (InvalidOperation, ''cannot resize variables that require grad''), st))
       \<and> (\<not> requires_grad st (TensorRef a) \<longrightarrow>
            resize_as_' ext (TensorRef a) (TensorRef t) st =
              (case underlying_resize ext a (sizes (impls st t))
                      (record_trace [TraceWarn ''resize_as_'', TraceDelValue (TensorRef a)] st) of
                 Inl e \<Rightarrow> (Inl e, record_trace [TraceWarn ''resize_as_'',
                                     TraceDelValue (TensorRef a)] st)
               | Inr st2 \<Rightarrow> (Inr (TensorRef a), st2)))"
  using assms by (simp add: resize_as_'_def unpack_variable Let_def)

lemma resize_case_result:
  assumes "\<not> rg"
  shows "(\<exists>msg. fst (case underlying_resize ext a sz st1 of
                 Inl e \<Rightarrow> (Inl e, st1) | Inr st2 \<Rightarrow> (Inr r, st2)) = Inl (InvalidOperation, msg)) = rg"
    and "impls st1 = impls st \<Longrightarrow>
         autograd_meta (impls (snd (case underlying_resize ext a sz st1 of
                 Inl e \<Rightarrow> (Inl e, st1) | Inr st2 \<Rightarrow> (Inr r, st2))) b) = autograd_meta (impls st b)"
proof -
  show "(\<exists>msg. fst (case underlying_resize ext a sz st1 of
                 Inl e \<Rightarrow> (Inl e, st1) | Inr st2 \<Rightarrow> (Inr r, st2)) = Inl (InvalidOperation, msg)) = rg"
    using assms underlying_resize_kind[of ext a sz st1]
    by (auto split: sum.splits)
  show "impls st1 = impls st \<Longrightarrow>
         autograd_meta (impls (snd (case underlying_resize ext a sz st1 of
                 Inl e \<Rightarrow> (Inl e, st1) | Inr st2 \<Rightarrow> (Inr r, st2))) b) = autograd_meta (impls st b)"
    using underlying_resize_frame[of ext a sz st1]
    by (auto split: sum.splits)
qed

text \<open>
  Claim C6. For Variables \<open>self\<close> and \<open>the_template\<close>, \<^verbatim>\<open>resize_\<close> and \<^verbatim>\<open>resize_as_\<close>
  fail with \<open>InvalidOperation\<close> if and only if \<open>self\<close> requires gradients at the call;
  whether they succeed or fail, the autograd metadata (so \<open>grad_fn\<close>) of every tensor is
  what it was; and when they fail for that reason the store is untouched: the check comes
  before the underlying resize.
\<close>

theorem resize_requires_grad:
  assumes "autograd_meta (impls st a) = Some m" and "autograd_meta (impls st t) = Some mt"
  shows "((\<exists>msg. fst (resize_' ext (TensorRef a) new_size st) = Inl (InvalidOperation, msg))
            = requires_grad st (TensorRef a))
       \<and> ((\<exists>msg. fst (resize_as_' ext (TensorRef a) (TensorRef t) st) = Inl (InvalidOperation, msg))
            = requires_grad st (TensorRef a))
       \<and> (\<forall>b. autograd_meta (impls (snd (resize_' ext (TensorRef a) new_size st)) b)
                = autograd_meta (impls st b))
       \<and> (\<forall>b. autograd_meta (impls (snd (resize_as_' ext (TensorRef a) (TensorRef t) st)) b)
                = autograd_meta (impls st b))
       \<and> (requires_grad st (TensorRef a) \<longrightarrow>
             snd (resize_' ext (TensorRef a) new_size st) = st
             \<and> snd (resize_as_' ext (TensorRef a) (TensorRef t) st) = st)"
proof (cases "requires_grad st (TensorRef a)")
  case True
  with resize_cases[OF assms(1), of ext new_size] resize_as_cases[OF assms, of ext]
  show ?thesis by simp
next
  case False
  from False resize_cases[OF assms(1), of ext new_size]
  have r: "resize_' ext (TensorRef a) new_size st =
              (case underlying_resize ext a new_size
                      (record_trace [TracePopIntArrayRef ''size'', TraceWarn ''resize_'',
                                     TraceDelValue (TensorRef a)] st) of
                 Inl e \<Rightarrow> (Inl e, record_trace [TracePopIntArrayRef ''size'', TraceWarn ''resize_'',
                                     TraceDelValue (TensorRef a)] st)
               | Inr st2 \<Rightarrow> (Inr (TensorRef a), st2))" by simp
  from False resize_as_cases[OF assms, of ext]
  have ra: "resize_as_' ext (TensorRef a) (TensorRef t) st =
              (case underlying_resize ext a (sizes (impls st t))
                      (record_trace [TraceWarn ''resize_as_'', TraceDelValue (TensorRef a)] st) of
                 Inl e \<Rightarrow> (Inl e, record_trace [TraceWarn ''resize_as_'',
                                     TraceDelValue (TensorRef a)] st)
               | Inr st2 \<Rightarrow> (Inr (TensorRef a), st2))" by simp
  show ?thesis
    unfolding r ra using False
    by (simp add: resize_case_result[OF False])
qed

theorem resize_requires_grad_witness:
  "(\<exists>msg. fst (resize_' example_ext (TensorRef 1) [3] example_state) = Inl (InvalidOperation, msg))
   \<and> (\<exists>msg. fst (resize_as_' example_ext (TensorRef 1) (TensorRef 0) example_state)
         = Inl (InvalidOperation, msg))
   \<and> snd (resize_' example_ext (TensorRef 1) [3] example_state) = example_state
   \<and> snd (resize_as_' example_ext (TensorRef 1) (TensorRef 0) example_state) = example_state
   \<and> \<not> (\<exists>msg. fst (resize_' example_ext (TensorRef 0) [3] example_state)
         = Inl (InvalidOperation, msg))
   \<and> \<not> (\<exists>msg. fst (resize_as_' example_ext (TensorRef 0) (TensorRef 1) example_state)
         = Inl (InvalidOperation, msg))
   \<and> autograd_meta (impls (snd (resize_' example_ext (TensorRef 0) [3] example_state)) 0)
       = Some leaf_meta"
proof -
  have m1: "autograd_meta (impls example_state 1) =
              Some (leaf_meta\<lparr>grad_fn_' := Some 0, output_nr_' := 2\<rparr>)"
    and m0: "autograd_meta (impls example_state 0) = Some leaf_meta"
    by (simp_all add: example_state_def)
  have r1: "requires_grad example_state (TensorRef 1)"
    and r0: "\<not> requires_grad example_state (TensorRef 0)"
    by (simp_all add: requires_grad_def example_defs)
  from resize_requires_grad[OF m1 m0, of example_ext "[3]"]
       resize_requires_grad[OF m0 m1, of example_ext "[3]"] r1 r0 m0
  show ?thesis by simp
qed

subsection \<open>Detaching\<close>

lemma detach_unfold:
  "detach (TensorRef a) st =
     (TensorRef (next_impl st),
      record_trace [TraceAddOutput (TensorRef (next_impl st))]
        ((record_trace [TraceNode ''detach'' [TensorRef a]] st)
           \<lparr>impls := (impls st)(next_impl st := (impls st a)
               \<lparr>version_counter := version_counter (impls st a),
                allow_tensor_metadata_change := False,
                autograd_meta := Some
                  \<lparr>grad_fn_' = None, output_nr_' = 0, requires_grad_' = False,
                   grad_accumulator_' = WeakEmpty, is_view_' = True,
                   is_differentiable = False\<rparr>\<rparr>),
             next_impl := Suc (next_impl st)\<rparr>))"
  by (simp add: detach_def make_variable_view_def Let_def)

text \<open>
  Claim C8. \<^verbatim>\<open>detach\<close> of a Variable \<open>v\<close> of the store changes no existing tensor object,
  no version counter, no storage and no node: the version, the autograd metadata (so
  \<open>grad_fn\<close>) and \<open>requires_grad\<close> of \<open>v\<close> are what they were. The result is a new
  Variable, a view that shares the storage and the version counter of \<open>v\<close>, with
  \<open>grad_fn\<close> null, \<open>requires_grad\<close> false, marked non-differentiable and with metadata
  change locked.
\<close>

theorem detach_frame:
  assumes "a < next_impl st" and "autograd_meta (impls st a) = Some m"
  shows "(\<forall>b<next_impl st. impls (snd (detach (TensorRef a) st)) b = impls st b)
       \<and> versions (snd (detach (TensorRef a) st)) = versions st
       \<and> storages (snd (detach (TensorRef a) st)) = storages st
       \<and> nodes (snd (detach (TensorRef a) st)) = nodes st
       \<and> current_version (snd (detach (TensorRef a) st)) (TensorRef a)
            = current_version st (TensorRef a)
       \<and> get_autograd_meta (snd (detach (TensorRef a) st)) (TensorRef a) = Some m
       \<and> requires_grad (snd (detach (TensorRef a) st)) (TensorRef a)
            = requires_grad st (TensorRef a)
       \<and> fst (detach (TensorRef a) st) = TensorRef (next_impl st)
       \<and> is_variable (snd (detach (TensorRef a) st)) (fst (detach (TensorRef a) st))
       \<and> is_view (snd (detach (TensorRef a) st)) (fst (detach (TensorRef a) st))
       \<and> storage (impls (snd (detach (TensorRef a) st)) (next_impl st)) = storage (impls st a)
       \<and> version_counter (impls (snd (detach (TensorRef a) st)) (next_impl st))
            = version_counter (impls st a)
       \<and> map_option grad_fn_'
            (get_autograd_meta (snd (detach (TensorRef a) st)) (fst (detach (TensorRef a) st)))
            = Some None
       \<and> requires_grad (snd (detach (TensorRef a) st)) (fst (detach (TensorRef a) st)) = False
       \<and> map_option is_differentiable
            (get_autograd_meta (snd (detach (TensorRef a) st)) (fst (detach (TensorRef a) st)))
            = Some False
       \<and> allow_tensor_metadata_change (impls (snd (detach (TensorRef a) st)) (next_impl st))
            = False"
  using assms unfolding detach_unfold
  by (simp add: is_variable_def is_view_def requires_grad_def)

theorem detach_frame_witness:
  "fst (detach (TensorRef 1) example_state) = TensorRef 8
   \<and> current_version (snd (detach (TensorRef 1) example_state)) (TensorRef 1)
       = current_version example_state (TensorRef 1)
   \<and> get_autograd_meta (snd (detach (TensorRef 1) example_state)) (TensorRef 1)
       = get_autograd_meta example_state (TensorRef 1)
   \<and> requires_grad (snd (detach (TensorRef 1) example_state)) (TensorRef 1)
   \<and> \<not> requires_grad (snd (detach (TensorRef 1) example_state)) (TensorRef 8)
   \<and> storage (impls (snd (detach (TensorRef 1) example_state)) 8) = 1
   \<and> is_view (snd (detach (TensorRef 1) example_state)) (TensorRef 8)"
proof -
  have lt: "1 < next_impl example_state" by (simp add: example_state_def)
  have m1: "autograd_meta (impls example_state 1) =
              Some (leaf_meta\<lparr>grad_fn_' := Some 0, output_nr_' := 2\<rparr>)"
    by (simp add: example_state_def)
  have n: "next_impl example_state = 8" and s: "storage (impls example_state 1) = 1"
    and r1: "requires_grad example_state (TensorRef 1)"
    by (simp_all add: requires_grad_def example_defs)
  from detach_frame[OF lt m1] n s r1 m1 show ?thesis by auto
qed

text \<open>
  Claim C7. On a Variable that is a view, \<^verbatim>\<open>detach_\<close> fails with \<open>InvalidOperation\<close> and
  leaves every tensor object, so also the autograd metadata of \<open>self\<close>, as it was. On a
  Variable that is not a view it succeeds and changes exactly the metadata of \<open>self\<close>,
  in place: \<open>requires_grad\<close> false, \<open>grad_fn\<close> null, \<open>output_nr\<close> 0.
\<close>

theorem detach_inplace:
  assumes "autograd_meta (impls st a) = Some m"
  shows "(is_view_' m \<longrightarrow>
            (\<exists>msg. fst (detach_' (TensorRef a) st) = Inl (InvalidOperation, msg))
            \<and> impls (snd (detach_' (TensorRef a) st)) = impls st)
       \<and> (\<not> is_view_' m \<longrightarrow>
            fst (detach_' (TensorRef a) st) = Inr (TensorRef a)
            \<and> impls (snd (detach_' (TensorRef a) st)) =
                (impls st)(a := (impls st a)
                  \<lparr>autograd_meta :=
                     Some (m\<lparr>requires_grad_' := False, grad_fn_' := None, output_nr_' := 0\<rparr>)\<rparr>)
            \<and> requires_grad (snd (detach_' (TensorRef a) st)) (TensorRef a) = False)"
  using assms
  by (auto simp: detach_'_def Let_def is_variable_def is_view_def requires_grad_def)

theorem detach_inplace_witness:
  "(\<exists>msg. fst (detach_' (TensorRef 5) example_state) = Inl (InvalidOperation, msg))
   \<and> impls (snd (detach_' (TensorRef 5) example_state)) = impls example_state
   \<and> fst (detach_' (TensorRef 1) example_state) = Inr (TensorRef 1)
   \<and> get_autograd_meta (snd (detach_' (TensorRef 1) example_state)) (TensorRef 1) = Some leaf_meta
   \<and> requires_grad (snd (detach_' (TensorRef 1) example_state)) (TensorRef 1) = False"
proof -
  have m5: "autograd_meta (impls example_state 5) =
              Some (leaf_meta\<lparr>grad_fn_' := Some 0, is_view_' := True\<rparr>)"
    by (simp add: example_state_def)
  have m1: "autograd_meta (impls example_state 1) =
              Some (leaf_meta\<lparr>grad_fn_' := Some 0, output_nr_' := 2\<rparr>)"
    by (simp add: example_state_def)
  from detach_inplace[OF m5] detach_inplace[OF m1]
  show ?thesis by (simp add: leaf_meta_def)
qed

end
